theory Spec2Isabelle
  imports Main "HOL-Library.Word" "HOL-Library.Multiset"
begin

unbundle bit_operations_syntax

section \<open>Data model\<close>

text \<open>
  The session controller of \<^verbatim>\<open>tscreen_unix.go\<close> and the default driver of
  \<^verbatim>\<open>driver.go\<close>. Channels, file handles and terminal-attribute snapshots are
  opaque: each is a natural-number identity. A nil channel, handle or snapshot pointer
  is \<open>None\<close>.
\<close>

type_synonym chan = nat
type_synonym handle = nat
type_synonym termios = nat

text \<open>
  Go compares error values by identity: \<open>ErrWinSizeUnused\<close> is the package-level
  sentinel of \<^verbatim>\<open>driver.go\<close>, \<open>ErrNew msg\<close> an error made by \<^verbatim>\<open>errors.New\<close>
  elsewhere, \<open>ErrSys n\<close> an error of the operating system.
\<close>

datatype error = ErrWinSizeUnused | ErrNew string | ErrSys nat

datatype loop = InputLoop | MainLoop

text \<open>Every effect on the terminal, the runtime and the collaborators, in call order.\<close>

datatype event =
    EvMakeRaw
  | EvResize int int
  | EvMakeChan chan
  | EvNonBlocking bool
  | EvEnableMouse int
  | EvEnablePasting bool
  | EvDriverInit "chan option"
  | EvDriverEngage
  | EvDriverDisengage
  | EvTPuts string
  | EvWgAdd int
  | EvGo loop "chan option"
  | EvClose chan
  | EvLoopExit loop
  | EvWgWait
  | EvRestore termios
  | EvWrite "8 word list"

record terminfo =
  EnterCA :: string
  EnterKeypad :: string
  HideCursor :: string
  EnableAcs :: string
  Clear :: string
  ShowCursor :: string
  AttrOff :: string
  ExitCA :: string
  ExitKeypad :: string

text \<open>
  The fields of \<^verbatim>\<open>tScreen\<close> that the lifecycle code reads or writes (\<open>mu\<close> is the
  embedded mutex, \<open>fin\<close> and \<open>fout\<close> are the fields \<^verbatim>\<open>in\<close> and \<^verbatim>\<open>out\<close>,
  \<open>cells\<close> the dimensions of the cell buffer), followed by the part of the runtime
  the code acts on: the next unallocated channel, the closed channels, the running
  loops with the stop channel each was given, the read mode of the TTY, and the trace
  of effects.
\<close>

record tScreen =
  mu :: bool
  stopQ :: "chan option"
  fin :: "handle option"
  fout :: "handle option"
  saved :: "termios option"
  cells :: "int \<times> int"
  mouseFlags :: int
  pasteEnabled :: bool
  ti :: terminfo
  wg :: int
  sigwinch :: "chan option"
  next_chan :: chan
  closed :: "chan set"
  loops :: "(loop \<times> chan option) list"
  nonblock :: bool
  trace :: "event list"

text \<open>
  What the outside world answers to the calls made during one operation:
  \<^verbatim>\<open>term.MakeRaw\<close>, the driver's \<^verbatim>\<open>WinSize\<close> and \<^verbatim>\<open>Init\<close>,
  \<^verbatim>\<open>term.GetSize\<close> (by handle) and \<^verbatim>\<open>term.GetState\<close>.
\<close>

record env =
  term_MakeRaw :: "error option"
  driver_WinSize :: "int \<times> int \<times> error option"
  term_GetSize :: "handle option \<Rightarrow> int \<times> int \<times> error option"
  driver_Init :: "handle option \<times> handle option \<times> error option"
  term_GetState :: "error + termios"

text \<open>
  A call returns, panics (with the state reached and the runtime's message), or blocks
  for ever.
\<close>

datatype ('s, 'a) outcome = Returns 's 'a | Panics 's string | Blocks 's

section \<open>Collaborators\<close>

definition emit :: "event \<Rightarrow> tScreen \<Rightarrow> tScreen" where
  "emit ev t = t\<lparr>trace := trace t @ [ev]\<rparr>"

text \<open>
  Modelled from the spec: \<^verbatim>\<open>nonBlocking\<close>, \<^verbatim>\<open>enableMouse\<close>, \<^verbatim>\<open>enablePasting\<close>,
  \<^verbatim>\<open>TPuts\<close>, \<^verbatim>\<open>writeString\<close>, \<^verbatim>\<open>cells.Resize\<close> and the driver hooks are not
  part of the two source files. Each is the opaque operation the spec names: it is
  recorded in the trace, and the read mode and the buffer dimensions are stored.
\<close>

definition nonBlocking :: "bool \<Rightarrow> tScreen \<Rightarrow> tScreen" where
  "nonBlocking on t = emit (EvNonBlocking on) (t\<lparr>nonblock := on\<rparr>)"

definition enableMouse :: "int \<Rightarrow> tScreen \<Rightarrow> tScreen" where
  "enableMouse f t = emit (EvEnableMouse f) t"

definition enablePasting :: "bool \<Rightarrow> tScreen \<Rightarrow> tScreen" where
  "enablePasting on t = emit (EvEnablePasting on) t"

definition TPuts :: "string \<Rightarrow> tScreen \<Rightarrow> tScreen" where
  "TPuts s t = emit (EvTPuts s) t"

definition writeString :: "8 word list \<Rightarrow> tScreen \<Rightarrow> tScreen" where
  "writeString s t = emit (EvWrite s) t"

definition cells_Resize :: "int \<Rightarrow> int \<Rightarrow> tScreen \<Rightarrow> tScreen" where
  "cells_Resize w h t = emit (EvResize w h) (t\<lparr>cells := (w, h)\<rparr>)"

definition driver_Engage :: "tScreen \<Rightarrow> tScreen" where
  "driver_Engage t = emit EvDriverEngage t"

definition driver_Disengage :: "tScreen \<Rightarrow> tScreen" where
  "driver_Disengage t = emit EvDriverDisengage t"

text \<open>
  The conversion \<^verbatim>\<open>string(b)\<close> of a byte: the UTF-8 encoding of the code point
  \<open>b\<close>, one byte below 128 and two bytes from 128 on.
\<close>

definition string_of_byte :: "8 word \<Rightarrow> 8 word list" where
  "string_of_byte b =
     (if b < 0x80 then [b] else [0xC0 OR drop_bit 6 b, 0x80 OR (b AND 0x3F)])"

text \<open>
  The runtime. \<^verbatim>\<open>make(chan struct{})\<close> returns a channel never seen before;
  \<^verbatim>\<open>close\<close> panics on a nil channel and on a closed one; \<^verbatim>\<open>wg.Add\<close> raises
  the counter of the wait group; \<^verbatim>\<open>go\<close> starts a loop with the channel it is given.
\<close>

definition make_chan :: "tScreen \<Rightarrow> chan \<times> tScreen" where
  "make_chan t =
     (next_chan t, emit (EvMakeChan (next_chan t)) (t\<lparr>next_chan := Suc (next_chan t)\<rparr>))"

definition close_chan :: "chan option \<Rightarrow> tScreen \<Rightarrow> string + tScreen" where
  "close_chan q t =
     (case q of
        None \<Rightarrow> Inl ''close of nil channel''
      | Some c \<Rightarrow>
          if c \<in> closed t then Inl ''close of closed channel''
          else Inr (emit (EvClose c) (t\<lparr>closed := insert c (closed t)\<rparr>)))"

definition wg_Add :: "int \<Rightarrow> tScreen \<Rightarrow> tScreen" where
  "wg_Add n t = emit (EvWgAdd n) (t\<lparr>wg := wg t + n\<rparr>)"

definition go_loop :: "loop \<Rightarrow> chan option \<Rightarrow> tScreen \<Rightarrow> tScreen" where
  "go_loop k q t = emit (EvGo k q) (t\<lparr>loops := loops t @ [(k, q)]\<rparr>)"

text \<open>
  Modelled from the spec: the bodies of \<^verbatim>\<open>inputLoop\<close> and \<^verbatim>\<open>mainLoop\<close> are
  not part of the two source files. The main loop exits when its stop signal fires;
  the input loop exits when its read is unblocked by non-blocking mode and the stop
  signal is observed. A loop given a nil channel never observes a stop. Each loop
  reports its completion to the wait group when it exits.
\<close>

definition loop_done :: "tScreen \<Rightarrow> loop \<times> chan option \<Rightarrow> bool" where
  "loop_done t l =
     (case snd l of
        None \<Rightarrow> False
      | Some c \<Rightarrow> c \<in> closed t \<and> (fst l = MainLoop \<or> nonblock t))"

text \<open>
  The loops are goroutines of their own, so the order in which those that can exit do
  so belongs to the scheduler. A schedule is a list of numbers: each picks, modulo the
  number of loops still to go, which one goes next; when it runs out the rest go in
  the order they were started. Every order is the result of some schedule, and every
  schedule gives an order of the same loops.
\<close>

fun pick_order :: "nat list \<Rightarrow> 'a list \<Rightarrow> 'a list" where
  "pick_order ns [] = []"
| "pick_order [] (x # xs) = x # xs"
| "pick_order (n # ns) (x # xs) =
     (let i = n mod length (x # xs)
      in (x # xs) ! i # pick_order ns (take i (x # xs) @ drop (Suc i) (x # xs)))"

text \<open>
  \<^verbatim>\<open>wg.Wait\<close>: the loops that can exit do so, in the order of the schedule, each
  lowering the counter by one; the call returns once the counter is zero and blocks
  otherwise.
\<close>

definition wg_Wait :: "nat list \<Rightarrow> tScreen \<Rightarrow> (tScreen, unit) outcome" where
  "wg_Wait sched t =
     (let done = pick_order sched (filter (loop_done t) (loops t));
          t' = t\<lparr>wg := wg t - int (length done),
                 loops := filter (\<lambda>l. \<not> loop_done t l) (loops t),
                 trace := trace t @ map (\<lambda>l. EvLoopExit (fst l)) done\<rparr>
      in if wg t' = 0 then Returns (emit EvWgWait t') () else Blocks t')"

text \<open>
  \<^verbatim>\<open>term.Restore\<close> reads the attributes through the snapshot pointer it is given:
  a nil snapshot is a nil-pointer dereference, a run-time panic before anything is
  written to the TTY. Otherwise the attributes are written back; the error of that
  write is discarded by the caller.
\<close>

definition term_Restore :: "termios option \<Rightarrow> tScreen \<Rightarrow> string + tScreen" where
  "term_Restore s t =
     (case s of
        None \<Rightarrow> Inl ''invalid memory address or nil pointer dereference''
      | Some a \<Rightarrow> Inr (emit (EvRestore a) t))"

section \<open>The session controller\<close>

definition getWinSize :: "env \<Rightarrow> tScreen \<Rightarrow> int \<times> int \<times> error option" where
  "getWinSize e t =
     (case driver_WinSize e of
        (w, h, err) \<Rightarrow>
          if err \<noteq> Some ErrWinSizeUnused then (w, h, err)
          else term_GetSize e (fin t))"

text \<open>
  \<^verbatim>\<open>engage\<close>. The mutex is taken first (a held mutex blocks the call) and released
  on every return, as the deferred \<^verbatim>\<open>Unlock\<close> does.
\<close>

definition engage :: "env \<Rightarrow> tScreen \<Rightarrow> (tScreen, error option) outcome" where
  "engage e t0 =
     (if mu t0 then Blocks t0
      else
        let t = t0\<lparr>mu := True\<rparr> in
        if stopQ t \<noteq> None then
          Returns (t\<lparr>mu := False\<rparr>) (Some (ErrNew ''already engaged''))
        else
          (case term_MakeRaw e of
            Some err \<Rightarrow> Returns (t\<lparr>mu := False\<rparr>) (Some err)
          | None \<Rightarrow>
              let t = emit EvMakeRaw t;
                  t = (case getWinSize e t of
                         (w, h, err) \<Rightarrow>
                           if err = None \<and> w \<noteq> 0 \<and> h \<noteq> 0 then cells_Resize w h t
                           else t);
                  (q, t) = make_chan t;
                  t = t\<lparr>stopQ := Some q\<rparr>;
                  t = nonBlocking False t;
                  t = enableMouse (mouseFlags t) t;
                  t = enablePasting (pasteEnabled t) t;
                  t = driver_Engage t;
                  tinfo = ti t;
                  t = TPuts (EnterCA tinfo) t;
                  t = TPuts (EnterKeypad tinfo) t;
                  t = TPuts (HideCursor tinfo) t;
                  t = TPuts (EnableAcs tinfo) t;
                  t = TPuts (Clear tinfo) t;
                  t = wg_Add 2 t;
                  t = go_loop InputLoop (Some q) t;
                  t = go_loop MainLoop (Some q) t
              in Returns (t\<lparr>mu := False\<rparr>) None))"

text \<open>
  \<^verbatim>\<open>disengage\<close>. There is no deferred unlock here: the mutex is released after
  the channel is closed, so a panic of \<^verbatim>\<open>close\<close> leaves it held. The schedule
  is the order in which the scheduler lets the stopped loops exit.
\<close>

definition disengage :: "nat list \<Rightarrow> tScreen \<Rightarrow> (tScreen, unit) outcome" where
  "disengage sched t0 =
     (if mu t0 then Blocks t0
      else
        let t = t0\<lparr>mu := True\<rparr>;
            t = nonBlocking True t;
            q = stopQ t;
            t = t\<lparr>stopQ := None\<rparr>
        in case close_chan q t of
             Inl msg \<Rightarrow> Panics t msg
           | Inr t \<Rightarrow>
               let t = t\<lparr>mu := False\<rparr> in
               (case wg_Wait sched t of
                 Blocks t \<Rightarrow> Blocks t
               | Panics t msg \<Rightarrow> Panics t msg
               | Returns t _ \<Rightarrow>
                   let t = driver_Disengage t;
                       t = nonBlocking False t;
                       tinfo = ti t;
                       t = cells_Resize 0 0 t;
                       t = TPuts (ShowCursor tinfo) t;
                       t = TPuts (AttrOff tinfo) t;
                       t = TPuts (Clear tinfo) t;
                       t = TPuts (ExitCA tinfo) t;
                       t = TPuts (ExitKeypad tinfo) t;
                       t = enableMouse 0 t;
                       t = enablePasting False t
                   in (case term_Restore (saved t) t of
                         Inl msg \<Rightarrow> Panics t msg
                       | Inr t \<Rightarrow> Returns t ())))"

definition initialize :: "env \<Rightarrow> tScreen \<Rightarrow> tScreen \<times> error option" where
  "initialize e t0 =
     (case driver_Init e of
        (i, ou, err) \<Rightarrow>
          let t = emit (EvDriverInit (sigwinch t0)) (t0\<lparr>fin := i, fout := ou\<rparr>) in
          if err \<noteq> None then (t, err)
          else
            let (s, err) = (case term_GetState e of
                              Inl x \<Rightarrow> (None, Some x)
                            | Inr a \<Rightarrow> (Some a, None));
                t = t\<lparr>saved := s\<rparr>
            in if err = None then (t, None) else (t, None))"

definition finalize :: "nat list \<Rightarrow> tScreen \<Rightarrow> (tScreen, unit) outcome" where
  "finalize sched t = disengage sched t"

definition Beep :: "tScreen \<Rightarrow> tScreen \<times> error option" where
  "Beep t = (writeString (string_of_byte 7) t, None)"

section \<open>The default driver\<close>

text \<open>
  The set of channels registered for the window-resize signal is the state of
  \<^verbatim>\<open>os/signal\<close>: \<^verbatim>\<open>signal.Notify\<close> adds a channel (and panics on a nil one),
  \<^verbatim>\<open>signal.Stop\<close> removes it.
\<close>

record defaultTermDriver =
  winch :: "chan option"
  out :: "handle option"

definition signal_Notify :: "chan option \<Rightarrow> chan set \<Rightarrow> string + chan set" where
  "signal_Notify c H =
     (case c of
        None \<Rightarrow> Inl ''os/signal: Notify using nil channel''
      | Some x \<Rightarrow> Inr (insert x H))"

definition signal_Stop :: "chan option \<Rightarrow> chan set \<Rightarrow> chan set" where
  "signal_Stop c H = (case c of None \<Rightarrow> H | Some x \<Rightarrow> H - {x})"

definition defaultTermDriver_Engage ::
  "defaultTermDriver \<Rightarrow> chan set \<Rightarrow> (defaultTermDriver \<times> chan set, unit) outcome" where
  "defaultTermDriver_Engage d H =
     (case signal_Notify (winch d) H of
        Inl msg \<Rightarrow> Panics (d, H) msg
      | Inr H' \<Rightarrow> Returns (d, H') ())"

definition defaultTermDriver_Disengage ::
  "defaultTermDriver \<Rightarrow> chan set \<Rightarrow> (defaultTermDriver \<times> chan set, unit) outcome" where
  "defaultTermDriver_Disengage d H = Returns (d, signal_Stop (winch d) H) ()"

text \<open>
  \<^verbatim>\<open>Init\<close>: \<open>open_rd\<close> and \<open>open_wr\<close> are the results of opening
  \<^verbatim>\<open>/dev/tty\<close> for reading and for writing. The results are named, so a failure
  of the second open returns the input handle already opened.
\<close>

definition defaultTermDriver_Init ::
  "error + handle \<Rightarrow> error + handle \<Rightarrow> chan option \<Rightarrow> defaultTermDriver \<Rightarrow> chan set \<Rightarrow>
     (defaultTermDriver \<times> chan set, handle option \<times> handle option \<times> error option) outcome" where
  "defaultTermDriver_Init open_rd open_wr w d H =
     (case open_rd of
        Inl err \<Rightarrow> Returns (d, H) (None, None, Some err)
      | Inr i \<Rightarrow>
          (case open_wr of
             Inl err \<Rightarrow> Returns (d, H) (Some i, None, Some err)
           | Inr ou \<Rightarrow>
               let d = d\<lparr>winch := w, out := Some ou\<rparr> in
               (case defaultTermDriver_Engage d H of
                  Returns s _ \<Rightarrow> Returns s (Some i, Some ou, None)
                | Panics s msg \<Rightarrow> Panics s msg
                | Blocks s \<Rightarrow> Blocks s)))"

definition defaultTermDriver_WinSize :: "defaultTermDriver \<Rightarrow> int \<times> int \<times> error option" where
  "defaultTermDriver_WinSize d = (0, 0, Some ErrWinSizeUnused)"

section \<open>Well-formed sessions and sample inputs\<close>

text \<open>
  The invariant of a session between calls: the mutex is free, every running loop was
  given the current stop channel (so none runs while disengaged), the wait group counts
  the running loops, every closed channel was allocated, and the current stop channel
  is allocated and open.
\<close>

definition wf :: "tScreen \<Rightarrow> bool" where
  "wf t =
     (\<not> mu t \<and>
      list_all (\<lambda>l. snd l = stopQ t \<and> stopQ t \<noteq> None) (loops t) \<and>
      wg t = int (length (loops t)) \<and>
      Ball (closed t) (\<lambda>c. c < next_chan t) \<and>
      (case stopQ t of None \<Rightarrow> True | Some q \<Rightarrow> q < next_chan t \<and> q \<notin> closed t))"

definition ti0 :: terminfo where
  "ti0 = \<lparr>EnterCA = ''smcup'', EnterKeypad = ''smkx'', HideCursor = ''civis'',
          EnableAcs = ''enacs'', Clear = ''clear'', ShowCursor = ''cnorm'',
          AttrOff = ''sgr0'', ExitCA = ''rmcup'', ExitKeypad = ''rmkx''\<rparr>"

text \<open>A session that was never engaged, and the same session engaged on channel 0.\<close>

definition t0 :: tScreen where
  "t0 = \<lparr>mu = False, stopQ = None, fin = Some 0, fout = Some 1, saved = Some 7,
         cells = (80, 24), mouseFlags = 0, pasteEnabled = False, ti = ti0, wg = 0,
         sigwinch = Some 100, next_chan = 0, closed = {}, loops = [],
         nonblock = False, trace = []\<rparr>"

definition t1 :: tScreen where
  "t1 = t0\<lparr>stopQ := Some 0, next_chan := 1, wg := 2,
           loops := [(InputLoop, Some 0), (MainLoop, Some 0)]\<rparr>"

text \<open>
  A world in which the driver has no window size of its own, the input handle is not a
  terminal and the output handle is an 80 by 24 terminal; and worlds in which raw mode
  or the state query fails.
\<close>

definition env0 :: env where
  "env0 = \<lparr>term_MakeRaw = None,
           driver_WinSize = (0, 0, Some ErrWinSizeUnused),
           term_GetSize = (\<lambda>h. if h = Some 1 then (80, 24, None)
                                else (0, 0, Some (ErrSys 25))),
           driver_Init = (Some 0, Some 1, None),
           term_GetState = Inr 7\<rparr>"

definition env_raw_fails :: env where
  "env_raw_fails = env0\<lparr>term_MakeRaw := Some (ErrSys 25)\<rparr>"

definition env_state_fails :: env where
  "env_state_fails = env0\<lparr>term_GetState := Inl (ErrSys 25)\<rparr>"

definition env_sized :: env where
  "env_sized = env0\<lparr>driver_WinSize := (132, 43, None)\<rparr>"

text \<open>The session \<open>t1\<close> after its disengage, the input loop having exited first.\<close>

definition t2 :: tScreen where
  "t2 = t1\<lparr>stopQ := None, cells := (0, 0), wg := 0, closed := {0}, loops := [],
           trace := [EvNonBlocking True, EvClose 0, EvLoopExit InputLoop,
                     EvLoopExit MainLoop, EvWgWait, EvDriverDisengage,
                     EvNonBlocking False, EvResize 0 0, EvTPuts ''cnorm'',
                     EvTPuts ''sgr0'', EvTPuts ''clear'', EvTPuts ''rmcup'',
                     EvTPuts ''rmkx'', EvEnableMouse 0, EvEnablePasting False,
                     EvRestore 7]\<rparr>"

text \<open>
  An engaged session one of whose loops holds a channel that is never closed, and an
  engaged session whose attribute snapshot is nil.
\<close>

definition t_stuck :: tScreen where
  "t_stuck = t1\<lparr>next_chan := 6, loops := [(InputLoop, Some 0), (MainLoop, Some 5)]\<rparr>"

definition t_unsaved :: tScreen where
  "t_unsaved = t1\<lparr>saved := None\<rparr>"

definition d0 :: defaultTermDriver where
  "d0 = \<lparr>winch = None, out = None\<rparr>"

text \<open>
  A running loop observes the stop once the channel \<open>q\<close> is closed: it holds \<open>q\<close>
  or a channel closed before.
\<close>

definition observes_stop :: "chan \<Rightarrow> tScreen \<Rightarrow> loop \<times> chan option \<Rightarrow> bool" where
  "observes_stop q t l =
     (case snd l of None \<Rightarrow> False | Some c \<Rightarrow> c = q \<or> c \<in> closed t)"

text \<open>The events a call added to the trace, and the resizes among them.\<close>

definition new_events :: "tScreen \<Rightarrow> tScreen \<Rightarrow> event list" where
  "new_events t t' = drop (length (trace t)) (trace t')"

fun is_Resize :: "event \<Rightarrow> bool" where
  "is_Resize (EvResize w h) = True"
| "is_Resize _ = False"

section \<open>Stepping through engage and disengage\<close>

lemmas step_defs = emit_def nonBlocking_def enableMouse_def enablePasting_def TPuts_def
  writeString_def cells_Resize_def driver_Engage_def driver_Disengage_def make_chan_def
  wg_Add_def go_loop_def term_Restore_def

lemma engage_success:
  assumes "\<not> mu t" "stopQ t = None" "term_MakeRaw e = None" "getWinSize e t = (w, h, err)"
  shows "engage e t = Returns
     (t\<lparr>stopQ := Some (next_chan t),
        cells := (if err = None \<and> w \<noteq> 0 \<and> h \<noteq> 0 then (w, h) else cells t),
        wg := wg t + 2,
        next_chan := Suc (next_chan t),
        loops := loops t @ [(InputLoop, Some (next_chan t)), (MainLoop, Some (next_chan t))],
        nonblock := False,
        trace := trace t @ [EvMakeRaw] @
          (if err = None \<and> w \<noteq> 0 \<and> h \<noteq> 0 then [EvResize w h] else []) @
          [EvMakeChan (next_chan t), EvNonBlocking False, EvEnableMouse (mouseFlags t),
           EvEnablePasting (pasteEnabled t), EvDriverEngage,
           EvTPuts (EnterCA (ti t)), EvTPuts (EnterKeypad (ti t)),
           EvTPuts (HideCursor (ti t)), EvTPuts (EnableAcs (ti t)),
           EvTPuts (Clear (ti t)), EvWgAdd 2,
           EvGo InputLoop (Some (next_chan t)), EvGo MainLoop (Some (next_chan t))]\<rparr>) None"
proof -
  have "getWinSize e (emit EvMakeRaw (t\<lparr>mu := True\<rparr>)) = getWinSize e t"
    by (simp add: getWinSize_def emit_def split: prod.splits)
  then have g: "getWinSize e (emit EvMakeRaw (t\<lparr>mu := True\<rparr>)) = (w, h, err)"
    using assms(4) by simp
  show ?thesis
    using assms(1-3) g by (simp add: engage_def Let_def step_defs)
qed

text \<open>A schedule only reorders the loops it is given.\<close>

lemma pick_order_mset: "mset (pick_order ns xs) = mset xs"
proof (induction ns xs rule: pick_order.induct)
  case (3 n ns x xs)
  let ?ys = "x # xs"
  let ?i = "n mod length ?ys"
  have lt: "?i < length ?ys" by simp
  have "take ?i ?ys @ ?ys ! ?i # drop (Suc ?i) ?ys = ?ys"
    using id_take_nth_drop [OF lt] by simp
  then have "mset ?ys = mset (take ?i ?ys @ ?ys ! ?i # drop (Suc ?i) ?ys)"
    by (simp only:)
  then have "mset ?ys = add_mset (?ys ! ?i) (mset (take ?i ?ys @ drop (Suc ?i) ?ys))"
    by simp
  moreover have "mset (pick_order ns (take ?i ?ys @ drop (Suc ?i) ?ys)) =
      mset (take ?i ?ys @ drop (Suc ?i) ?ys)"
    using "3.IH" [of ?i] by simp
  ultimately show ?case
    by (simp only: pick_order.simps Let_def mset.simps)
qed simp_all

lemma pick_order_length: "length (pick_order ns xs) = length xs"
  using pick_order_mset [of ns xs] by (metis size_mset)

lemma loop_done_nonblock:
  "nonblock s \<Longrightarrow> loop_done s = (\<lambda>l. \<exists>c. snd l = Some c \<and> c \<in> closed s)"
  by (auto simp: loop_done_def fun_eq_iff split: option.splits)

lemma observes_stop_alt:
  "observes_stop q t = (\<lambda>l. \<exists>c. snd l = Some c \<and> c \<in> insert q (closed t))"
  by (auto simp: observes_stop_def fun_eq_iff split: option.splits)

lemma filter_counts:
  "length (filter P xs) = length xs \<longleftrightarrow> list_all P xs"
proof
  assume e: "length (filter P xs) = length xs"
  show "list_all P xs"
  proof (rule ccontr)
    assume "\<not> list_all P xs"
    then obtain x where "x \<in> set xs" "\<not> P x"
      by (auto simp: list_all_iff)
    then have "length (filter P xs) < length xs" by (rule length_filter_less)
    with e show False by simp
  qed
next
  assume "list_all P xs"
  then have "filter P xs = xs" by (simp add: list_all_iff)
  then show "length (filter P xs) = length xs" by simp
qed

lemma filter_list_all:
  "list_all P xs \<Longrightarrow> filter P xs = xs \<and> filter (\<lambda>x. \<not> P x) xs = []"
  by (induction xs) auto

text \<open>
  A disengage of an engaged session, whatever its loops hold: it blocks in the wait
  while the counter of the wait group is not used up by the loops that observe the
  stop, and goes on to the restore otherwise.
\<close>

lemma disengage_blocks:
  assumes "\<not> mu t" "stopQ t = Some q" "q \<notin> closed t"
    and "wg t \<noteq> int (length (filter (observes_stop q t) (loops t)))"
  shows "disengage sched t = Blocks
     (t\<lparr>stopQ := None, nonblock := True, closed := insert q (closed t),
        wg := wg t - int (length (filter (observes_stop q t) (loops t))),
        loops := filter (\<lambda>l. \<not> observes_stop q t l) (loops t),
        trace := trace t @ [EvNonBlocking True, EvClose q] @
          map (\<lambda>l. EvLoopExit (fst l))
            (pick_order sched (filter (observes_stop q t) (loops t)))\<rparr>)"
  using assms
  by (simp add: disengage_def Let_def step_defs close_chan_def wg_Wait_def
      pick_order_length loop_done_nonblock observes_stop_alt)

lemma disengage_joined:
  fixes t :: tScreen
  defines "T \<equiv> \<lambda>sched q.
     t\<lparr>stopQ := None, cells := (0, 0), wg := 0, closed := insert q (closed t),
       loops := filter (\<lambda>l. \<not> observes_stop q t l) (loops t), nonblock := False,
       trace := trace t @ [EvNonBlocking True, EvClose q] @
         map (\<lambda>l. EvLoopExit (fst l))
           (pick_order sched (filter (observes_stop q t) (loops t))) @
         [EvWgWait, EvDriverDisengage, EvNonBlocking False, EvResize 0 0,
          EvTPuts (ShowCursor (ti t)), EvTPuts (AttrOff (ti t)), EvTPuts (Clear (ti t)),
          EvTPuts (ExitCA (ti t)), EvTPuts (ExitKeypad (ti t)),
          EvEnableMouse 0, EvEnablePasting False]\<rparr>"
  assumes "\<not> mu t" "stopQ t = Some q" "q \<notin> closed t"
    and "wg t = int (length (filter (observes_stop q t) (loops t)))"
  shows "disengage sched t =
     (case saved t of
        None \<Rightarrow> Panics (T sched q) ''invalid memory address or nil pointer dereference''
      | Some a \<Rightarrow> Returns ((T sched q)\<lparr>trace := trace (T sched q) @ [EvRestore a]\<rparr>) ())"
  using assms(2-)
  by (cases "saved t")
     (simp_all add: T_def disengage_def Let_def step_defs close_chan_def wg_Wait_def
      pick_order_length loop_done_nonblock observes_stop_alt)






lemma wf_t0: "wf t0"
  by (simp add: wf_def t0_def)

lemma wf_t1: "wf t1"
  by (simp add: wf_def t1_def t0_def)

section \<open>Engage\<close>

text \<open>
  C1: engage on a session that is already engaged (its stop signal is not nil) returns
  the error "already engaged" and returns the session exactly as it was: same stop
  channel, no raw-mode switch, nothing emitted, no loop started.
\<close>

theorem engage_already_engaged:
  "stopQ t \<noteq> None \<Longrightarrow> \<not> mu t \<Longrightarrow>
   engage e t = Returns t (Some (ErrNew ''already engaged''))"
  by (simp add: engage_def)

theorem engage_already_engaged_witness:
  "stopQ t1 \<noteq> None \<and> \<not> mu t1 \<and> stopQ t1 = Some 0 \<and>
   engage env0 t1 = Returns t1 (Some (ErrNew ''already engaged''))"
proof -
  have a: "stopQ t1 \<noteq> None" and b: "\<not> mu t1" and c: "stopQ t1 = Some 0"
    by (simp_all add: t1_def t0_def)
  show ?thesis using a b c engage_already_engaged [OF a b, of env0] by simp
qed

text \<open>
  C7: when the switch to raw mode fails, engage returns that error unchanged and the
  session exactly as it was: the stop signal stays nil, nothing is emitted, mouse and
  paste reporting and the driver are not touched, no loop is started.
\<close>

theorem engage_raw_mode_failure:
  "term_MakeRaw e = Some err \<Longrightarrow> stopQ t = None \<Longrightarrow> \<not> mu t \<Longrightarrow>
   engage e t = Returns t (Some err)"
  by (simp add: engage_def)

theorem engage_raw_mode_failure_witness:
  "term_MakeRaw env_raw_fails = Some (ErrSys 25) \<and> stopQ t0 = None \<and> \<not> mu t0 \<and>
   engage env_raw_fails t0 = Returns t0 (Some (ErrSys 25))"
proof -
  have a: "term_MakeRaw env_raw_fails = Some (ErrSys 25)"
    by (simp add: env_raw_fails_def)
  have b: "stopQ t0 = None" and c: "\<not> mu t0"
    by (simp_all add: t0_def)
  show ?thesis using a b c engage_raw_mode_failure [OF a b c] by simp
qed

text \<open>
  C6: an engage that gets raw mode succeeds whatever the size query answers, and it
  resizes the cell buffer to the queried size exactly when the query has no error and
  neither dimension is zero; otherwise the dimensions stay as they were and no resize
  happens at all.
\<close>

theorem engage_resizes_iff_nonzero:
  assumes "\<not> mu t" "stopQ t = None" "term_MakeRaw e = None" "getWinSize e t = (w, h, err)"
  shows "\<exists>t'. engage e t = Returns t' None \<and>
           cells t' = (if err = None \<and> w \<noteq> 0 \<and> h \<noteq> 0 then (w, h) else cells t) \<and>
           filter is_Resize (new_events t t') =
             (if err = None \<and> w \<noteq> 0 \<and> h \<noteq> 0 then [EvResize w h] else [])"
  unfolding engage_success [OF assms]
  by (simp add: new_events_def)

theorem engage_resizes_iff_nonzero_witness:
  "\<not> mu t0 \<and> stopQ t0 = None \<and> term_MakeRaw env_sized = None \<and>
   getWinSize env_sized t0 = (132, 43, None) \<and>
   (\<exists>t'. engage env_sized t0 = Returns t' None \<and> cells t' = (132, 43) \<and>
      filter is_Resize (new_events t0 t') = [EvResize 132 43])"
proof -
  have a: "\<not> mu t0" and b: "stopQ t0 = None"
    by (simp_all add: t0_def)
  have c: "term_MakeRaw env_sized = None"
    by (simp add: env_sized_def env0_def)
  have d: "getWinSize env_sized t0 = (132, 43, None)"
    by (simp add: getWinSize_def env_sized_def env0_def)
  show ?thesis using a b c d engage_resizes_iff_nonzero [OF a b c d] by simp
qed

section \<open>Disengage\<close>

text \<open>
  C3: a disengage of an engaged session performs its steps in this order: the TTY goes
  non-blocking, the stop channel is closed, the loops that observe the stop exit (in
  the scheduler's order), and the call waits for them. While a loop has not exited the
  call blocks there, and nothing more has happened. Once all have exited the wait
  returns, and only then come the driver hook, the exit capability strings and, last of
  all, the restore of the saved attributes (a nil snapshot panics there instead, after
  everything else). No loop is left afterwards.
\<close>

theorem disengage_order:
  assumes "\<not> mu t" "stopQ t = Some q" "q \<notin> closed t" "wg t = int (length (loops t))"
  shows "\<exists>t'.
     trace t' = trace t @ [EvNonBlocking True, EvClose q] @
       map (\<lambda>l. EvLoopExit (fst l))
         (pick_order sched (filter (observes_stop q t) (loops t))) @
       (if list_all (observes_stop q t) (loops t)
        then [EvWgWait, EvDriverDisengage, EvNonBlocking False, EvResize 0 0,
              EvTPuts (ShowCursor (ti t)), EvTPuts (AttrOff (ti t)),
              EvTPuts (Clear (ti t)), EvTPuts (ExitCA (ti t)),
              EvTPuts (ExitKeypad (ti t)), EvEnableMouse 0, EvEnablePasting False] @
             (case saved t of None \<Rightarrow> [] | Some a \<Rightarrow> [EvRestore a])
        else []) \<and>
     disengage sched t =
       (if \<not> list_all (observes_stop q t) (loops t) then Blocks t'
        else case saved t of
               None \<Rightarrow> Panics t' ''invalid memory address or nil pointer dereference''
             | Some a \<Rightarrow> Returns t' ()) \<and>
     loops t' = filter (\<lambda>l. \<not> observes_stop q t l) (loops t) \<and>
     (list_all (observes_stop q t) (loops t) \<longrightarrow> loops t' = [] \<and> wg t' = 0)"
proof (cases "list_all (observes_stop q t) (loops t)")
  case True
  note f = filter_list_all [OF True]
  have c: "wg t = int (length (filter (observes_stop q t) (loops t)))"
    using assms(4) f by simp
  show ?thesis
    unfolding disengage_joined [OF assms(1-3) c] using True f
    by (cases "saved t") simp_all
next
  case False
  have c: "wg t \<noteq> int (length (filter (observes_stop q t) (loops t)))"
    using assms(4) False filter_counts [of "observes_stop q t" "loops t"] by simp
  show ?thesis
    unfolding disengage_blocks [OF assms(1-3) c] using False by simp
qed

theorem disengage_order_witness:
  "\<not> mu t1 \<and> stopQ t1 = Some 0 \<and> 0 \<notin> closed t1 \<and> wg t1 = int (length (loops t1)) \<and>
   (\<exists>t'. disengage [1] t1 = Returns t' () \<and> loops t' = [] \<and> wg t' = 0 \<and>
      trace t' =
        [EvNonBlocking True, EvClose 0, EvLoopExit MainLoop, EvLoopExit InputLoop,
         EvWgWait, EvDriverDisengage, EvNonBlocking False, EvResize 0 0,
         EvTPuts ''cnorm'', EvTPuts ''sgr0'', EvTPuts ''clear'', EvTPuts ''rmcup'',
         EvTPuts ''rmkx'', EvEnableMouse 0, EvEnablePasting False, EvRestore 7]) \<and>
   (\<exists>t'. disengage [] t_stuck = Blocks t' \<and> loops t' = [(MainLoop, Some 5)] \<and>
      trace t' = [EvNonBlocking True, EvClose 0, EvLoopExit InputLoop]) \<and>
   (\<exists>t'. disengage [] t_unsaved =
            Panics t' ''invalid memory address or nil pointer dereference'' \<and>
      trace t' =
        [EvNonBlocking True, EvClose 0, EvLoopExit InputLoop, EvLoopExit MainLoop,
         EvWgWait, EvDriverDisengage, EvNonBlocking False, EvResize 0 0,
         EvTPuts ''cnorm'', EvTPuts ''sgr0'', EvTPuts ''clear'', EvTPuts ''rmcup'',
         EvTPuts ''rmkx'', EvEnableMouse 0, EvEnablePasting False])"
proof -
  have a: "\<not> mu t1" "stopQ t1 = Some 0" "0 \<notin> closed t1" "wg t1 = int (length (loops t1))"
    by (simp_all add: t1_def t0_def)
  have b: "\<not> mu t_stuck" "stopQ t_stuck = Some 0" "0 \<notin> closed t_stuck"
    "wg t_stuck = int (length (loops t_stuck))"
    by (simp_all add: t_stuck_def t1_def t0_def)
  have c: "\<not> mu t_unsaved" "stopQ t_unsaved = Some 0" "0 \<notin> closed t_unsaved"
    "wg t_unsaved = int (length (loops t_unsaved))"
    by (simp_all add: t_unsaved_def t1_def t0_def)
  have v: "loops t1 = [(InputLoop, Some 0), (MainLoop, Some 0)]" "ti t1 = ti0"
    "saved t1 = Some 7" "trace t1 = []" "closed t1 = {}"
    "loops t_stuck = [(InputLoop, Some 0), (MainLoop, Some 5)]" "trace t_stuck = []"
    "closed t_stuck = {}" "saved t_stuck = Some 7"
    "loops t_unsaved = [(InputLoop, Some 0), (MainLoop, Some 0)]" "ti t_unsaved = ti0"
    "saved t_unsaved = None" "trace t_unsaved = []" "closed t_unsaved = {}"
    by (simp_all add: t_stuck_def t_unsaved_def t1_def t0_def)
  show ?thesis
    using a disengage_order [OF a, of "[1]"] disengage_order [OF b, of "[]"]
      disengage_order [OF c, of "[]"]
    by (auto simp: v ti0_def observes_stop_def)
qed



text \<open>
  Disengage has no guard for the disengaged state: with a nil stop signal it switches
  the TTY to non-blocking mode and panics on closing the nil channel, the mutex held.
\<close>

lemma disengage_nil_stop_panics:
  "\<not> mu t \<Longrightarrow> stopQ t = None \<Longrightarrow>
   disengage sched t = Panics (t\<lparr>mu := True, nonblock := True,
                                 trace := trace t @ [EvNonBlocking True]\<rparr>)
                              ''close of nil channel''"
  by (simp add: disengage_def close_chan_def step_defs Let_def)

text \<open>
  C2: a disengage of a disengaged session should be a no-op that guards against a
  double shutdown. It is not: after the disengage of the engaged session \<open>t1\<close>, which
  returns \<open>t2\<close>, a finalize does not return and does not leave \<open>t2\<close> as it was; it
  switches the TTY to non-blocking mode and panics in \<^verbatim>\<open>close\<close>, the mutex held.
\<close>

theorem finalize_after_disengage_panics:
  "stopQ t2 = None \<and> disengage [] t1 = Returns t2 () \<and>
   disengage [] t2 \<noteq> Returns t2 () \<and>
   finalize [] t2 = Panics (t2\<lparr>mu := True, nonblock := True,
                               trace := trace t2 @ [EvNonBlocking True]\<rparr>)
                           ''close of nil channel''"
  by (simp add: finalize_def disengage_def close_chan_def wg_Wait_def loop_done_def
      step_defs t2_def t1_def t0_def ti0_def Let_def)

section \<open>Window size\<close>

text \<open>
  The driver's own answer is passed on unchanged; on the sentinel the size is asked of
  the handle \<^verbatim>\<open>t.in\<close>.
\<close>

lemma getWinSize_driver_result:
  "driver_WinSize e = (w, h, err) \<Longrightarrow> err \<noteq> Some ErrWinSizeUnused \<Longrightarrow>
   getWinSize e t = (w, h, err)"
  by (simp add: getWinSize_def)

lemma getWinSize_fallback:
  "driver_WinSize e = (w, h, Some ErrWinSizeUnused) \<Longrightarrow>
   getWinSize e t = term_GetSize e (fin t)"
  by (simp add: getWinSize_def)

text \<open>
  C5: on the sentinel of the driver the fallback query would go to the output handle.
  With the default driver's answer, an input handle that is not a terminal and an output
  handle that is one, \<open>getWinSize\<close> returns the error of the input handle, not the
  80 by 24 of the output handle.
\<close>

theorem getWinSize_queries_input_handle:
  "driver_WinSize env0 = defaultTermDriver_WinSize d0 \<and>
   snd (snd (driver_WinSize env0)) = Some ErrWinSizeUnused \<and>
   getWinSize env0 t0 = term_GetSize env0 (fin t0) \<and>
   getWinSize env0 t0 = (0, 0, Some (ErrSys 25)) \<and>
   term_GetSize env0 (fout t0) = (80, 24, None)"
  by (simp add: getWinSize_def env0_def t0_def defaultTermDriver_WinSize_def)

section \<open>Initialize\<close>

text \<open>
  C9: initialize returns exactly the error of the driver's Init, so it fails if and only
  if Init does. When Init succeeds the result of the state query becomes the saved
  snapshot, nil when the query fails, and its error is dropped; when Init fails the
  snapshot is not touched.
\<close>

theorem initialize_error_iff_Init:
  "snd (initialize e t) = snd (snd (driver_Init e)) \<and>
   (snd (snd (driver_Init e)) = None \<longrightarrow>
      saved (fst (initialize e t)) =
        (case term_GetState e of Inl x \<Rightarrow> None | Inr a \<Rightarrow> Some a)) \<and>
   (snd (snd (driver_Init e)) \<noteq> None \<longrightarrow>
      saved (fst (initialize e t)) = saved t)"
  by (cases "driver_Init e"; cases "term_GetState e")
     (auto simp: initialize_def emit_def Let_def)

theorem initialize_error_iff_Init_witness:
  "snd (snd (driver_Init env_state_fails)) = None \<and>
   term_GetState env_state_fails = Inl (ErrSys 25) \<and>
   snd (initialize env_state_fails (t0\<lparr>saved := None\<rparr>)) = None \<and>
   saved (fst (initialize env_state_fails (t0\<lparr>saved := None\<rparr>))) = None"
proof -
  have a: "snd (snd (driver_Init env_state_fails)) = None"
    and b: "term_GetState env_state_fails = Inl (ErrSys 25)"
    by (simp_all add: env_state_fails_def env0_def)
  show ?thesis
    using a b initialize_error_iff_Init [of env_state_fails "t0\<lparr>saved := None\<rparr>"]
    by simp
qed

section \<open>The default driver's signal registration\<close>

text \<open>
  C10: Init of the default driver, once both opens succeed, stores the resize channel
  and the output handle and registers that channel for the resize signal before it
  returns; Engage and Disengage of the driver so initialised register and unregister
  that same channel and leave the driver as it is.
\<close>

theorem defaultTermDriver_Init_registers:
  "defaultTermDriver_Init (Inr i) (Inr ou) (Some c) d H =
     Returns (d\<lparr>winch := Some c, out := Some ou\<rparr>, insert c H) (Some i, Some ou, None) \<and>
   defaultTermDriver_Engage (d\<lparr>winch := Some c, out := Some ou\<rparr>) H' =
     Returns (d\<lparr>winch := Some c, out := Some ou\<rparr>, insert c H') () \<and>
   defaultTermDriver_Disengage (d\<lparr>winch := Some c, out := Some ou\<rparr>) H' =
     Returns (d\<lparr>winch := Some c, out := Some ou\<rparr>, H' - {c}) ()"
  by (simp add: defaultTermDriver_Init_def defaultTermDriver_Engage_def
      defaultTermDriver_Disengage_def signal_Notify_def signal_Stop_def)

text \<open>A failed open returns before anything is stored or registered.\<close>

lemma defaultTermDriver_Init_open_fails:
  "defaultTermDriver_Init (Inl err) open_wr w d H = Returns (d, H) (None, None, Some err)"
  "defaultTermDriver_Init (Inr i) (Inl err) w d H = Returns (d, H) (Some i, None, Some err)"
  by (simp_all add: defaultTermDriver_Init_def)

section \<open>Beep\<close>

text \<open>
  C8: Beep writes exactly one byte, the byte 7, to the output stream and returns a nil
  error, in every state of the session; nothing else of the session changes.
\<close>

theorem Beep_writes_bel:
  "Beep t = (t\<lparr>trace := trace t @ [EvWrite [7]]\<rparr>, None)"
  by (simp add: Beep_def writeString_def emit_def string_of_byte_def)

end
